theory Spec2Isabelle
  imports Complex_Main "HOL-Library.Sublist"
begin

section \<open>The face-recognition demo: the App component of src/src/App.tsx\<close>

text \<open>
  The repository is one React component. Its state is seven \<open>useState\<close> cells; its
  behaviour is five handlers (\<open>loadModels\<close>, \<open>handleImageUpload\<close>, \<open>captureImage\<close>,
  \<open>performFaceMatch\<close>, \<open>resetCapture\<close>) and the JSX that decides which controls are shown
  and which are disabled. Each handler is modelled as a function from the state it is
  invoked in (and what the browser and the face-api.js library answer) to the state it
  leaves.

  Numbers: a JavaScript number is an IEEE 754 double: a finite value, an infinity or NaN.
  The arithmetic of line 155 is modelled with its rounding to the nearest double and its
  special values. A descriptor (a \<open>Float32Array\<close>) is modelled as a list of finite
  values, given as reals, and the distance the library returns for two of them as a real.
\<close>

subsection \<open>State\<close>

type_synonym descriptor = "real list"

text \<open>
  The \<open>useState\<close> cells of lines 9-15, in the order of the source. \<open>null\<close> is \<open>None\<close>.
  The last field is the browser console, to which \<open>console.log\<close> and \<open>console.error\<close>
  append their first argument.
\<close>

record app =
  modelsLoaded :: bool
  referenceImage :: "string option"
  referenceDescriptor :: "descriptor option"
  matchResult :: string
  capturedImage :: "string option"
  capturedDescriptor :: "descriptor option"
  isProcessing :: bool
  console :: "string list"

definition initial :: app where
  "initial =
     \<lparr>modelsLoaded = False, referenceImage = None, referenceDescriptor = None,
      matchResult = [], capturedImage = None, capturedDescriptor = None,
      isProcessing = False, console = []\<rparr>"

definition log :: "string \<Rightarrow> app \<Rightarrow> app" where
  "log msg s = s\<lparr>console := console s @ [msg]\<rparr>"

subsection \<open>Promises and the outcome of running a block\<close>

text \<open>
  What an awaited promise does: it is fulfilled with a value, it is rejected, or it never
  settles. The last case is also what the handler sees for as long as the promise is
  outstanding: it is suspended at the \<open>await\<close>, and the state it has written so far is the
  one the component renders. A fulfilled promise is modelled as fulfilled at once: no
  other handler runs between an \<open>await\<close> and its continuation.
\<close>

datatype 'a promise = Resolved 'a | Rejected | Pending

text \<open>
  A block of an async handler either completes, throws, or stays suspended at an
  \<open>await\<close>; each carries the state reached, since \<open>setState\<close> calls made before a throw
  or a suspension are not undone.
\<close>

datatype outcome = Returned app | Threw app | Hung app

fun state_of :: "outcome \<Rightarrow> app" where
  "state_of (Returned s) = s"
| "state_of (Threw s) = s"
| "state_of (Hung s) = s"

fun await :: "'a promise \<Rightarrow> app \<Rightarrow> ('a \<Rightarrow> outcome) \<Rightarrow> outcome" where
  "await (Resolved v) s k = k v"
| "await Rejected s k = Threw s"
| "await Pending s k = Hung s"

text \<open>\<open>Promise.all\<close>: rejected as soon as one member is, fulfilled when all are.\<close>

definition promise_all :: "unit promise list \<Rightarrow> unit promise" where
  "promise_all ps =
     (if Rejected \<in> set ps then Rejected
      else if Pending \<in> set ps then Pending
      else Resolved ())"

subsection \<open>What the browser and the library answer during one handler invocation\<close>

text \<open>
  \<open>files0\<close> is \<open>event.target.files?.[0]\<close>, given as the object URL that
  \<open>URL.createObjectURL\<close> makes for it; \<open>videoRef_current\<close> and \<open>canvasRef_current\<close> say
  whether the refs are set; \<open>getContext\<close> whether \<open>canvas.getContext('2d')\<close> is non-null;
  \<open>toDataURL\<close> is the JPEG data URL of the frame; \<open>image_onload\<close> is the promise of lines
  77-80 and 121-124, which only the image's \<open>onload\<close> event fulfils;
  \<open>detectSingleFace\<close> is the promise of the face-api.js detection chain, fulfilled with
  a descriptor or with \<open>undefined\<close> (no face).
\<close>

record env =
  files0 :: "string option"
  videoRef_current :: bool
  canvasRef_current :: bool
  getContext :: bool
  toDataURL :: string
  image_onload :: "unit promise"
  detectSingleFace :: "descriptor option promise"

subsection \<open>loadModels (lines 17-35)\<close>

definition loadModels :: "unit promise list \<Rightarrow> app \<Rightarrow> outcome" where
  "loadModels nets s =
     (case await (promise_all nets) s
             (\<lambda>_. Returned (log ''Models loaded successfully'' (s\<lparr>modelsLoaded := True\<rparr>))) of
        Threw s' \<Rightarrow> Returned (log ''Error loading models:'' s')
      | r \<Rightarrow> r)"

subsection \<open>handleVideoPlay (lines 52-64)\<close>

text \<open>It sizes the overlay canvas and touches no state cell.\<close>

definition handleVideoPlay :: "app \<Rightarrow> app" where
  "handleVideoPlay s = s"

subsection \<open>handleImageUpload (lines 66-101)\<close>

definition upload_try :: "env \<Rightarrow> string \<Rightarrow> app \<Rightarrow> outcome" where
  "upload_try e imageUrl s =
     (let s1 = s\<lparr>referenceImage := Some imageUrl\<rparr> in
      await (image_onload e) s1 (\<lambda>_.
      await (detectSingleFace e) s1 (\<lambda>detections.
        case detections of
          Some d \<Rightarrow>
            Returned (log ''Reference face descriptor extracted''
                        (s1\<lparr>referenceDescriptor := Some d\<rparr>))
        | None \<Rightarrow>
            Returned ((log ''No face detected in the reference image'' s1)
                        \<lparr>matchResult := ''No face detected in the uploaded image''\<rparr>))))"

definition upload_catch :: "app \<Rightarrow> app" where
  "upload_catch s =
     (log ''Error processing reference image:'' s)\<lparr>matchResult := ''Error processing the image''\<rparr>"

definition handleImageUpload :: "env \<Rightarrow> app \<Rightarrow> outcome" where
  "handleImageUpload e s =
     (case files0 e of
        None \<Rightarrow> Returned s
      | Some file \<Rightarrow>
          if \<not> modelsLoaded s then Returned s
          else (case upload_try e file s of
                  Threw s' \<Rightarrow> Returned (upload_catch s')
                | r \<Rightarrow> r))"

subsection \<open>captureImage (lines 103-146)\<close>

definition capture_try :: "env \<Rightarrow> app \<Rightarrow> outcome" where
  "capture_try e s =
     (if \<not> getContext e then Threw s
      else
        await (image_onload e) s (\<lambda>_.
        let s1 = s\<lparr>capturedImage := Some (toDataURL e)\<rparr> in
        await (detectSingleFace e) s1 (\<lambda>detection.
          case detection of
            Some d \<Rightarrow>
              Returned (log ''Captured face descriptor extracted''
                          (s1\<lparr>capturedDescriptor := Some d\<rparr>))
          | None \<Rightarrow>
              Returned ((log ''No face detected in captured image'' s1)
                          \<lparr>matchResult := ''No face detected in captured image''\<rparr>))))"

definition capture_catch :: "app \<Rightarrow> app" where
  "capture_catch s =
     (log ''Error processing captured image:'' s)
       \<lparr>matchResult := ''Error processing the captured image''\<rparr>"

text \<open>The \<open>finally\<close> block runs when the \<open>try\<close>/\<open>catch\<close> is left, not while it is suspended.\<close>

fun capture_finally :: "outcome \<Rightarrow> outcome" where
  "capture_finally (Returned s) = Returned (s\<lparr>isProcessing := False\<rparr>)"
| "capture_finally (Threw s) = Threw (s\<lparr>isProcessing := False\<rparr>)"
| "capture_finally (Hung s) = Hung s"

definition captureImage :: "env \<Rightarrow> app \<Rightarrow> outcome" where
  "captureImage e s =
     (if \<not> videoRef_current e \<or> \<not> canvasRef_current e \<or> \<not> modelsLoaded s then Returned s
      else
        capture_finally
          (case capture_try e (s\<lparr>isProcessing := True\<rparr>) of
             Threw s' \<Rightarrow> Returned (capture_catch s')
           | r \<Rightarrow> r))"

subsection \<open>JavaScript numbers\<close>

text \<open>
  A number is a finite double (given by its exact value), \<open>Infinity\<close>, \<open>-Infinity\<close> or
  \<open>NaN\<close>. The sign of zero is left out: \<open>Math.max\<close> with \<open>0\<close> and \<open>toFixed\<close> treat
  \<open>-0\<close> as \<open>0\<close>.
\<close>

datatype number = Finite real | PosInf | NegInf | NaN

text \<open>
  Rounding to the nearest double, ties to the even significand (IEEE 754 binary64). A
  non-zero \<open>x\<close> lies in the binade \<open>2\<^sup>e \<le> |x| < 2\<^sup>e\<^sup>+\<^sup>1\<close>; the doubles there are the
  multiples of \<open>2\<^sup>e\<^sup>-\<^sup>5\<^sup>2\<close>, and below \<open>2\<^sup>-\<^sup>1\<^sup>0\<^sup>2\<^sup>2\<close> (the subnormal range) the multiples of
  \<open>2\<^sup>-\<^sup>1\<^sup>0\<^sup>7\<^sup>4\<close>. \<open>round_double\<close> rounds with an unbounded exponent; \<open>js_round\<close> turns a
  result of magnitude \<open>2\<^sup>1\<^sup>0\<^sup>2\<^sup>4\<close> or more into the infinity of its sign.
\<close>

definition pow2 :: "int \<Rightarrow> real" where
  "pow2 e = (if 0 \<le> e then 2 ^ nat e else 1 / 2 ^ nat (- e))"

definition binade :: "real \<Rightarrow> int" where
  "binade x = max \<lfloor>Transcendental.log 2 \<bar>x\<bar>\<rfloor> (- 1022)"

definition ulp :: "real \<Rightarrow> real" where
  "ulp x = pow2 (binade x - 52)"

definition round_even :: "real \<Rightarrow> int" where
  "round_even y =
     (let f = \<lfloor>y\<rfloor>; r = y - of_int f
      in if r < 1 / 2 then f else if 1 / 2 < r then f + 1 else if even f then f else f + 1)"

definition round_double :: "real \<Rightarrow> real" where
  "round_double x = (if x = 0 then 0 else of_int (round_even (x / ulp x)) * ulp x)"

definition js_round :: "real \<Rightarrow> number" where
  "js_round x =
     (if pow2 1024 \<le> \<bar>round_double x\<bar> then (if x < 0 then NegInf else PosInf)
      else Finite (round_double x))"

text \<open>The operators \<open>-\<close>, \<open>*\<close> and \<open><\<close>, and \<open>Math.min\<close> and \<open>Math.max\<close>, on numbers.\<close>

fun js_sub :: "number \<Rightarrow> number \<Rightarrow> number" where
  "js_sub NaN b = NaN"
| "js_sub a NaN = NaN"
| "js_sub (Finite a) (Finite b) = js_round (a - b)"
| "js_sub (Finite a) PosInf = NegInf"
| "js_sub (Finite a) NegInf = PosInf"
| "js_sub PosInf PosInf = NaN"
| "js_sub PosInf b = PosInf"
| "js_sub NegInf NegInf = NaN"
| "js_sub NegInf b = NegInf"

fun js_mul :: "number \<Rightarrow> number \<Rightarrow> number" where
  "js_mul NaN b = NaN"
| "js_mul a NaN = NaN"
| "js_mul (Finite a) (Finite b) = js_round (a * b)"
| "js_mul (Finite a) PosInf = (if a = 0 then NaN else if 0 < a then PosInf else NegInf)"
| "js_mul (Finite a) NegInf = (if a = 0 then NaN else if 0 < a then NegInf else PosInf)"
| "js_mul PosInf (Finite b) = (if b = 0 then NaN else if 0 < b then PosInf else NegInf)"
| "js_mul NegInf (Finite b) = (if b = 0 then NaN else if 0 < b then NegInf else PosInf)"
| "js_mul PosInf PosInf = PosInf"
| "js_mul PosInf NegInf = NegInf"
| "js_mul NegInf PosInf = NegInf"
| "js_mul NegInf NegInf = PosInf"

fun js_less :: "number \<Rightarrow> number \<Rightarrow> bool" where
  "js_less (Finite a) (Finite b) = (a < b)"
| "js_less (Finite a) PosInf = True"
| "js_less NegInf (Finite b) = True"
| "js_less NegInf PosInf = True"
| "js_less a b = False"

fun Math_min :: "number \<Rightarrow> number \<Rightarrow> number" where
  "Math_min NaN b = NaN"
| "Math_min a NaN = NaN"
| "Math_min a b = (if js_less b a then b else a)"

fun Math_max :: "number \<Rightarrow> number \<Rightarrow> number" where
  "Math_max NaN b = NaN"
| "Math_max a NaN = NaN"
| "Math_max a b = (if js_less a b then b else a)"

fun finite_value :: "number \<Rightarrow> real" where
  "finite_value (Finite x) = x"
| "finite_value v = 0"

subsection \<open>performFaceMatch (lines 148-162)\<close>

datatype error = Error string

text \<open>
  Modelled from the spec: \<open>faceapi.euclideanDistance\<close> is a function of the face-api.js
  library, whose code is not among the repository's files. The spec takes it as the
  Euclidean distance of two equal-length numeric vectors. It is given here as the library
  computes it: it throws when the two arrays differ in length, and otherwise returns the
  square root of the sum, by \<open>reduce\<close> from 0, of the squared differences of the
  components.
\<close>

definition euclideanDistance :: "descriptor \<Rightarrow> descriptor \<Rightarrow> error + real" where
  "euclideanDistance arr1 arr2 =
     (if length arr1 \<noteq> length arr2
      then Inl (Error ''euclideanDistance: arr1.length !== arr2.length'')
      else Inr (sqrt (foldl (\<lambda>res diff. res + diff\<^sup>2) 0 (map2 (-) arr1 arr2))))"

text \<open>
  Line 155: \<open>Math.max(0, Math.min(100, (1 - distance) * 100))\<close>, on every number the
  distance can be, with the subtraction and the multiplication rounded.
\<close>

definition similarity_number :: "number \<Rightarrow> number" where
  "similarity_number distance =
     Math_max (Finite 0) (Math_min (Finite 100) (js_mul (js_sub (Finite 1) distance) (Finite 100)))"

text \<open>
  The same line for a finite distance, which is what the library returns for two
  descriptors of finite values. The result is then finite as well (lemma
  \<open>similarity_finite\<close> below).
\<close>

definition similarity :: "real \<Rightarrow> real" where
  "similarity distance = finite_value (similarity_number (Finite distance))"

definition matchThreshold :: real where
  "matchThreshold = 0.5"

text \<open>The decimal digits of a natural number, most significant first.\<close>

function decimal :: "nat \<Rightarrow> string" where
  "decimal n =
     (if n < 10 then [''0123456789'' ! n]
      else decimal (n div 10) @ [''0123456789'' ! (n mod 10)])"
  by pat_completeness auto
termination
  by (relation "measure id") auto

declare decimal.simps [simp del]

text \<open>
  \<open>Number.prototype.toFixed(f)\<close> for a finite number below \<open>10\<^sup>2\<^sup>1\<close> in size (ECMAScript
  21.1.3.3): the sign is split off, \<open>n\<close> is the integer nearest to \<open>x * 10\<^sup>f\<close> (the larger
  one at a tie), its digits are padded with zeros to \<open>f + 1\<close> places, and the point goes
  before the last \<open>f\<close> of them; all of this on the exact value of the double.
  \<open>performFaceMatch\<close> calls it on a similarity, a number between 0 and 100, so the
  exponent notation of larger numbers is not needed.
\<close>

definition toFixed :: "nat \<Rightarrow> real \<Rightarrow> string" where
  "toFixed f x =
     (let sgn = (if x < 0 then ''-'' else []);
          y = (if x < 0 then - x else x);
          n = nat \<lfloor>y * 10 ^ f + 1 / 2\<rfloor>;
          m = decimal n;
          m' = (if f \<noteq> 0 \<and> length m \<le> f then replicate (f + 1 - length m) CHR ''0'' @ m else m);
          k = length m'
      in if f \<noteq> 0 then sgn @ take (k - f) m' @ ''.'' @ drop (k - f) m' else sgn @ m')"

text \<open>
  The two marks of the verdict line, in UTF-8: U+2705 (white heavy check mark) and
  U+274C (cross mark).
\<close>

definition check_mark :: string where
  "check_mark = [CHR 0xE2, CHR 0x9C, CHR 0x85]"

definition cross_mark :: string where
  "cross_mark = [CHR 0xE2, CHR 0x9D, CHR 0x8C]"

definition verdict :: "real \<Rightarrow> string" where
  "verdict distance =
     (if distance < matchThreshold then check_mark @ '' Face Match Found!''
      else cross_mark @ '' No Match Found'')"

text \<open>The template literal of lines 159-160.\<close>

definition match_message :: "real \<Rightarrow> string" where
  "match_message distance =
     ''Match Result: '' @ toFixed 2 (similarity distance) @ ''% similar'' @ [CHR 0x0A]
       @ verdict distance"

definition performFaceMatch :: "app \<Rightarrow> error + app" where
  "performFaceMatch s =
     (case (referenceDescriptor s, capturedDescriptor s) of
        (Some r, Some c) \<Rightarrow>
          (case euclideanDistance r c of
             Inl err \<Rightarrow> Inl err
           | Inr distance \<Rightarrow> Inr (s\<lparr>matchResult := match_message distance\<rparr>))
      | _ \<Rightarrow> Inr (s\<lparr>matchResult := ''Please ensure both images have detected faces''\<rparr>))"

subsection \<open>resetCapture (lines 164-170)\<close>

definition resetCapture :: "app \<Rightarrow> app" where
  "resetCapture s =
     s\<lparr>capturedImage := None, referenceImage := None, referenceDescriptor := None,
       capturedDescriptor := None, matchResult := []\<rparr>"

subsection \<open>The rendered controls (lines 172-277)\<close>

text \<open>JavaScript truthiness of a \<open>string | null\<close>: \<open>null\<close> and the empty string are falsy.\<close>

definition truthy :: "string option \<Rightarrow> bool" where
  "truthy x = (case x of None \<Rightarrow> False | Some u \<Rightarrow> u \<noteq> [])"

text \<open>\<open>String.prototype.includes\<close>: the argument occurs as a contiguous part.\<close>

definition str_includes :: "string \<Rightarrow> string \<Rightarrow> bool" where
  "str_includes s part = sublist part s"

text \<open>The file input of lines 182-188 is always rendered and has no \<open>disabled\<close> attribute.\<close>

definition upload_input_disabled :: "app \<Rightarrow> bool" where
  "upload_input_disabled s = False"

definition capture_button_disabled :: "app \<Rightarrow> bool" where
  "capture_button_disabled s = isProcessing s"

definition compare_button_shown :: "app \<Rightarrow> bool" where
  "compare_button_shown s = (truthy (referenceImage s) \<and> truthy (capturedImage s))"

definition compare_button_disabled :: "app \<Rightarrow> bool" where
  "compare_button_disabled s =
     (isProcessing s \<or> referenceDescriptor s = None \<or> capturedDescriptor s = None)"

text \<open>The reset button of lines 210-218 has no \<open>disabled\<close> attribute either.\<close>

definition reset_button_shown :: "app \<Rightarrow> bool" where
  "reset_button_shown s = (truthy (referenceImage s) \<or> truthy (capturedImage s))"

definition reset_button_disabled :: "app \<Rightarrow> bool" where
  "reset_button_disabled s = False"

definition result_shown :: "app \<Rightarrow> bool" where
  "result_shown s = (matchResult s \<noteq> [])"

text \<open>Line 263: the result box is green when the message includes the check mark, else red.\<close>

definition result_green :: "app \<Rightarrow> bool" where
  "result_green s = str_includes (matchResult s) check_mark"

definition loading_indicator_shown :: "app \<Rightarrow> bool" where
  "loading_indicator_shown s = (\<not> modelsLoaded s)"

subsection \<open>Sequences of user actions\<close>

text \<open>
  One user action with what the environment answers to it. \<open>dispatch\<close> gives the state
  the action's handler leaves: where it completed, or where it is suspended. A compare
  whose distance computation throws leaves the state as it was, since the \<open>setMatchResult\<close>
  call is not reached.
\<close>

datatype event = Upload env | Capture env | Compare | Reset | VideoPlay

fun dispatch :: "event \<Rightarrow> app \<Rightarrow> app" where
  "dispatch (Upload e) s = state_of (handleImageUpload e s)"
| "dispatch (Capture e) s = state_of (captureImage e s)"
| "dispatch Compare s = (case performFaceMatch s of Inl err \<Rightarrow> s | Inr s' \<Rightarrow> s')"
| "dispatch Reset s = resetCapture s"
| "dispatch VideoPlay s = handleVideoPlay s"

definition run :: "event list \<Rightarrow> app \<Rightarrow> app" where
  "run evs s = foldl (\<lambda>s' ev. dispatch ev s') s evs"

subsection \<open>The spec's formula for the similarity\<close>


subsection \<open>Sample states and environments\<close>

text \<open>
  The state once the models are loaded; a camera whose frame shows no face; a file
  chooser whose file shows no face. The examples below vary them field by field.
\<close>

definition ready :: app where
  "ready = initial\<lparr>modelsLoaded := True\<rparr>"

definition camera :: env where
  "camera =
     \<lparr>files0 = None, videoRef_current = True, canvasRef_current = True, getContext = True,
      toDataURL = ''data:image/jpeg;base64,AA'', image_onload = Resolved (),
      detectSingleFace = Resolved None\<rparr>"

definition chooser :: env where
  "chooser =
     \<lparr>files0 = Some ''blob:photo'', videoRef_current = True, canvasRef_current = True,
      getContext = True, toDataURL = [], image_onload = Resolved (),
      detectSingleFace = Resolved None\<rparr>"

section \<open>Properties\<close>

subsection \<open>Rounding and line 155\<close>

lemma pow2_powr: "pow2 e = 2 powr (real_of_int e)"
  by (simp add: pow2_def powr_real_of_int divide_inverse)

lemma pow2_pos: "0 < pow2 e"
  by (simp add: pow2_powr)

lemma binade_eqI:
  assumes "pow2 e \<le> \<bar>x\<bar>" and "\<bar>x\<bar> < pow2 (e + 1)" and "- 1022 \<le> e"
  shows "binade x = e"
proof -
  have "0 < \<bar>x\<bar>"
    using assms(1) pow2_pos [of e] by linarith
  then have "\<lfloor>Transcendental.log 2 \<bar>x\<bar>\<rfloor> = e"
    using assms(1,2) by (simp add: floor_log_eq_powr_iff pow2_powr)
  with assms(3) show ?thesis
    by (simp add: binade_def)
qed

lemma round_double_eval:
  assumes "pow2 e \<le> \<bar>x\<bar>" and "\<bar>x\<bar> < pow2 (e + 1)" and "- 1022 \<le> e"
  shows "round_double x = of_int (round_even (x / pow2 (e - 52))) * pow2 (e - 52)"
proof -
  have "x \<noteq> 0"
    using assms(1) pow2_pos [of e] by auto
  then show ?thesis
    by (simp add: round_double_def ulp_def binade_eqI [OF assms])
qed

text \<open>
  \<open>round_double\<close> is a nearest value on the grid of its binade: it is off by at most half
  the spacing.
\<close>

lemma round_even_near: "\<bar>real_of_int (round_even y) - y\<bar> \<le> 1 / 2"
proof -
  have "real_of_int \<lfloor>y\<rfloor> \<le> y" and "y < real_of_int \<lfloor>y\<rfloor> + 1"
    by linarith+
  then show ?thesis
    by (auto simp: round_even_def Let_def)
qed

lemma ulp_pos: "0 < ulp x"
  by (simp add: ulp_def pow2_pos)

lemma scaled_distance:
  fixes a x u :: real
  assumes "0 < u"
  shows "\<bar>a - x / u\<bar> * u = \<bar>a * u - x\<bar>"
proof -
  have "\<bar>a - x / u\<bar> * u = \<bar>(a - x / u) * u\<bar>"
    using assms by (simp add: abs_mult)
  also have "(a - x / u) * u = a * u - x"
    using assms by (simp add: field_simps)
  finally show ?thesis .
qed

lemma round_double_near: "\<bar>round_double x - x\<bar> \<le> ulp x / 2"
proof (cases "x = 0")
  case True
  then show ?thesis
    using ulp_pos [of x] by (simp add: round_double_def)
next
  case False
  have "\<bar>real_of_int (round_even (x / ulp x)) - x / ulp x\<bar> * ulp x \<le> 1 / 2 * ulp x"
    using round_even_near [of "x / ulp x"] ulp_pos [of x]
    by (intro mult_right_mono) simp_all
  moreover have "\<bar>real_of_int (round_even (x / ulp x)) - x / ulp x\<bar> * ulp x =
      \<bar>real_of_int (round_even (x / ulp x)) * ulp x - x\<bar>"
    using ulp_pos [of x] by (rule scaled_distance)
  ultimately show ?thesis
    using False by (simp add: round_double_def)
qed

text \<open>Doubles round to themselves; other values to a neighbour.\<close>

lemma round_double_1:
  assumes "x = 1"
  shows "round_double x = 1"
  unfolding assms
  by (subst round_double_eval [of 0]) (simp_all add: pow2_def round_even_def)

lemma round_double_100:
  assumes "x = 100"
  shows "round_double x = 100"
  unfolding assms
  by (subst round_double_eval [of 6]) (simp_all add: pow2_def round_even_def)

lemma round_double_half:
  assumes "x = 1 / 2"
  shows "round_double x = 1 / 2"
  unfolding assms
  by (subst round_double_eval [of "- 1"]) (simp_all add: pow2_def round_even_def)

lemma round_double_50:
  assumes "x = 50"
  shows "round_double x = 50"
  unfolding assms
  by (subst round_double_eval [of 5]) (simp_all add: pow2_def round_even_def)

lemma round_double_7_10:
  assumes "x = 7 / 10"
  shows "round_double x = 6305039478318694 / 2 ^ 53"
  unfolding assms
  by (subst round_double_eval [of "- 1"]) (simp_all add: pow2_def round_even_def)

lemma round_double_neg_fifth:
  assumes "x = - 1 / 5"
  shows "round_double x = - 7205759403792794 / 2 ^ 55"
  unfolding assms
  by (subst round_double_eval [of "- 3"]) (simp_all add: pow2_def round_even_def)

lemma round_double_neg_20:
  assumes "x = - 7205759403792794 / 2 ^ 55 * 100"
  shows "round_double x = - 20"
  unfolding assms
  by (subst round_double_eval [of 4]) (simp_all add: pow2_def round_even_def)

lemma round_double_70:
  assumes "x = 6305039478318694 / 2 ^ 53 * 100"
  shows "round_double x = 70"
  unfolding assms
  by (subst round_double_eval [of 6]) (simp_all add: pow2_def round_even_def)

lemma js_round_small: "\<bar>round_double x\<bar> < 2 ^ 1024 \<Longrightarrow> js_round x = Finite (round_double x)"
  by (simp add: js_round_def pow2_def)











lemma similarity_0: "similarity 0 = 100"
  by (simp add: similarity_def similarity_number_def js_round_small round_double_1 round_double_100)

lemma similarity_half: "similarity (1 / 2) = 50"
  by (simp add: similarity_def similarity_number_def js_round_small round_double_half
      round_double_50)

lemma similarity_6_5: "similarity (6 / 5) = 0"
  by (simp add: similarity_def similarity_number_def js_round_small round_double_neg_fifth
      round_double_neg_20)

lemma similarity_3_10: "similarity (3 / 10) = 70"
  by (simp add: similarity_def similarity_number_def js_round_small round_double_7_10
      round_double_70)

lemma round_double_below_31_32:
  assumes "x = 1 - (1 / 32 + 1 / 2 ^ 57)"
  shows "round_double x = 31 / 32"
  unfolding assms
  by (subst round_double_eval [of "- 1"]) (simp_all add: pow2_def round_even_def)

lemma round_double_96875:
  assumes "x = 31 / 32 * 100"
  shows "round_double x = 3875 / 40"
  unfolding assms
  by (subst round_double_eval [of 6]) (simp_all add: pow2_def round_even_def)

text \<open>
  Rounding is visible in the printed digits: at the distance \<open>1/32 + 2\<^sup>-\<^sup>5\<^sup>7\<close> the
  subtraction rounds to \<open>31/32\<close>, the product is 96.875 and \<open>toFixed(2)\<close> prints 96.88,
  where the exact value of \<open>(1 - d) * 100\<close> would print 96.87.
\<close>

lemma similarity_rounded:
  "similarity (1 / 32 + 1 / 2 ^ 57) = 3875 / 40"
  by (simp add: similarity_def similarity_number_def js_round_small round_double_below_31_32
      round_double_96875)

lemma toFixed_96875: "toFixed 2 (3875 / 40) = ''96.88''"
  unfolding toFixed_def Let_def by (simp add: decimal.simps)


subsection \<open>The distance, the digits and the verdict line\<close>

lemma foldl_squares_nonneg:
  "0 \<le> acc \<Longrightarrow> 0 \<le> foldl (\<lambda>res diff. res + diff\<^sup>2) (acc::real) xs"
  by (induction xs arbitrary: acc) simp_all

lemma euclideanDistance_defined:
  assumes "length arr1 = length arr2"
  shows "\<exists>d. euclideanDistance arr1 arr2 = Inr d \<and> 0 \<le> d"
  using assms by (simp add: euclideanDistance_def foldl_squares_nonneg)

lemma performFaceMatch_present:
  assumes "referenceDescriptor s = Some r" and "capturedDescriptor s = Some c"
    and "euclideanDistance r c = Inr d"
  shows "performFaceMatch s = Inr (s\<lparr>matchResult := match_message d\<rparr>)"
  using assms by (simp add: performFaceMatch_def)

lemma performFaceMatch_missing:
  assumes "referenceDescriptor s = None \<or> capturedDescriptor s = None"
  shows "performFaceMatch s =
    Inr (s\<lparr>matchResult := ''Please ensure both images have detected faces''\<rparr>)"
  using assms by (auto simp: performFaceMatch_def split: option.splits)

lemma toFixed_100: "toFixed 2 100 = ''100.00''"
  unfolding toFixed_def Let_def by (simp add: decimal.simps)

lemma toFixed_50: "toFixed 2 50 = ''50.00''"
  unfolding toFixed_def Let_def by (simp add: decimal.simps)

lemma toFixed_0: "toFixed 2 0 = ''0.00''"
  unfolding toFixed_def Let_def by (simp add: decimal.simps)

lemma distance_3_4: "euclideanDistance [3 / 10, 4 / 10] [0, 0] = Inr (1 / 2)"
proof -
  have "sqrt ((3 / 10)\<^sup>2 + (4 / 10)\<^sup>2) = (1 / 2 :: real)"
    by (rule real_sqrt_unique) (simp_all add: power2_eq_square)
  then show ?thesis
    by (simp add: euclideanDistance_def)
qed

lemma decimal_chars: "set (decimal n) \<subseteq> set ''0123456789''"
proof (induction n rule: decimal.induct)
  case (1 n)
  have digit: "''0123456789'' ! k \<in> set ''0123456789''" if "k < 10" for k
    using that by (intro nth_mem) simp
  show ?case
  proof (cases "n < 10")
    case True
    then show ?thesis using digit [of n] by (subst decimal.simps) simp
  next
    case False
    have "n mod 10 < 10" by simp
    from digit [OF this] 1 [OF False] False show ?thesis
      by (subst decimal.simps) simp
  qed
qed

lemma toFixed_chars_in:
  assumes "CHR ''-'' \<in> A" and "CHR ''.'' \<in> A" and "CHR ''0'' \<in> A"
    and "\<And>n. set (decimal n) \<subseteq> A"
  shows "set (toFixed f x) \<subseteq> A"
proof -
  define n where "n = nat \<lfloor>(if x < 0 then - x else x) * 10 ^ f + 1 / 2\<rfloor>"
  define m where
    "m = (if f \<noteq> 0 \<and> length (decimal n) \<le> f
          then replicate (f + 1 - length (decimal n)) CHR ''0'' @ decimal n else decimal n)"
  have m: "set m \<subseteq> A"
    using assms(3) assms(4) [of n] by (auto simp: m_def)
  have tk: "set (take i m) \<subseteq> A" for i
    using m set_take_subset [of i m] by blast
  have dr: "set (drop i m) \<subseteq> A" for i
    using m set_drop_subset [of i m] by blast
  have "toFixed f x =
      (if f \<noteq> 0 then (if x < 0 then ''-'' else []) @ take (length m - f) m @ ''.'' @ drop (length m - f) m
       else (if x < 0 then ''-'' else []) @ m)"
    by (simp add: toFixed_def Let_def m_def n_def)
  then show ?thesis
    using assms(1,2) m tk [of "length m - f"] dr [of "length m - f"]
    by (cases "x < 0"; cases "f = 0"; simp)
qed

lemma toFixed_chars: "set (toFixed f x) \<subseteq> set ''-.0123456789''"
proof -
  have sub: "set ''0123456789'' \<subseteq> set ''-.0123456789''"
    by auto
  have "set (decimal n) \<subseteq> set ''-.0123456789''" for n
    using decimal_chars [of n] sub by blast
  then show ?thesis
    by (intro toFixed_chars_in) simp_all
qed

lemma no_match_not_green:
  assumes "\<not> d < matchThreshold"
  shows "\<not> str_includes (match_message d) check_mark"
proof
  assume "str_includes (match_message d) check_mark"
  then have "set check_mark \<subseteq> set (match_message d)"
    unfolding str_includes_def by (rule set_mono_sublist)
  then have "CHR 0x9C \<in> set (match_message d)"
    by (auto simp: check_mark_def)
  moreover have "CHR 0x9C \<notin> set (toFixed 2 (similarity d))"
    using toFixed_chars [of 2 "similarity d"] by auto
  ultimately show False
    using assms by (simp add: match_message_def verdict_def cross_mark_def)
qed

lemma match_green:
  assumes "d < matchThreshold"
  shows "str_includes (match_message d) check_mark"
proof -
  have "match_message d =
      (''Match Result: '' @ toFixed 2 (similarity d) @ ''% similar'' @ [CHR 0x0A])
        @ check_mark @ '' Face Match Found!''"
    using assms by (simp add: match_message_def verdict_def)
  then show ?thesis
    unfolding str_includes_def by (simp only: sublist_appendI)
qed

lemma distance_3: "euclideanDistance [3 / 10] [0] = Inr (3 / 10)"
  by (simp add: euclideanDistance_def)

lemma toFixed_70: "toFixed 2 70 = ''70.00''"
  unfolding toFixed_def Let_def by (simp add: decimal.simps)

lemma distance_same: "euclideanDistance [1 / 4, 3 / 4] [1 / 4, 3 / 4] = Inr 0"
  by (simp add: euclideanDistance_def)

lemma distance_72_96: "euclideanDistance [72 / 100, 96 / 100] [0, 0] = Inr (6 / 5)"
proof -
  have "sqrt ((72 / 100)\<^sup>2 + (96 / 100)\<^sup>2) = (6 / 5 :: real)"
    by (rule real_sqrt_unique) (simp_all add: power2_eq_square)
  then show ?thesis
    by (simp add: euclideanDistance_def)
qed

subsection \<open>The comparison\<close>

text \<open>
  Claim C1. For every pair of reference and captured descriptors (of one length, so that
  the library returns a distance \<open>d\<close>), \<open>performFaceMatch\<close> writes the match line exactly
  when \<open>d < 0.5\<close> and the no-match line when \<open>d \<ge> 0.5\<close>; the result box, which tests
  the message for the check mark, is green exactly when \<open>d < 0.5\<close>.
\<close>

theorem performFaceMatch_threshold:
  assumes "referenceDescriptor s = Some r" and "capturedDescriptor s = Some c"
    and "length r = length c"
  shows "\<exists>d. euclideanDistance r c = Inr d \<and> 0 \<le> d \<and>
           (\<exists>s'. performFaceMatch s = Inr s' \<and>
              matchResult s' =
                ''Match Result: '' @ toFixed 2 (similarity d) @ ''% similar'' @ [CHR 0x0A]
                  @ (if d < 0.5 then check_mark @ '' Face Match Found!''
                     else cross_mark @ '' No Match Found'') \<and>
              result_green s' = (d < 0.5))"
proof -
  from euclideanDistance_defined [OF assms(3)]
  obtain d where d: "euclideanDistance r c = Inr d" "0 \<le> d"
    by blast
  let ?s' = "s\<lparr>matchResult := match_message d\<rparr>"
  have run: "performFaceMatch s = Inr ?s'"
    using assms(1,2) d(1) by (rule performFaceMatch_present)
  have msg: "matchResult ?s' =
      ''Match Result: '' @ toFixed 2 (similarity d) @ ''% similar'' @ [CHR 0x0A]
        @ (if d < 0.5 then check_mark @ '' Face Match Found!''
           else cross_mark @ '' No Match Found'')"
    by (simp add: match_message_def verdict_def matchThreshold_def)
  have green: "result_green ?s' = (d < 0.5)"
    using match_green [of d] no_match_not_green [of d]
    by (auto simp: result_green_def matchThreshold_def)
  from d run msg green show ?thesis
    by blast
qed

text \<open>
  The theorem at the boundary and below it: the descriptors \<open>(0.3, 0.4)\<close> and \<open>(0, 0)\<close>
  are at distance 0.5 and give no match; \<open>(0.3)\<close> and \<open>(0)\<close> are at distance 0.3 and
  give a match.
\<close>

theorem performFaceMatch_threshold_witness:
  "(\<exists>s'. performFaceMatch
            (initial\<lparr>referenceDescriptor := Some [3 / 10, 4 / 10],
                     capturedDescriptor := Some [0, 0]\<rparr>) = Inr s'
        \<and> matchResult s' =
            ''Match Result: 50.00% similar'' @ [CHR 0x0A] @ cross_mark @ '' No Match Found''
        \<and> \<not> result_green s')
   \<and> (\<exists>s'. performFaceMatch
            (initial\<lparr>referenceDescriptor := Some [3 / 10],
                     capturedDescriptor := Some [0]\<rparr>) = Inr s'
        \<and> matchResult s' =
            ''Match Result: 70.00% similar'' @ [CHR 0x0A] @ check_mark @ '' Face Match Found!''
        \<and> result_green s')"
proof -
  have sim: "toFixed 2 (similarity (1 / 2)) = ''50.00''"
    "toFixed 2 (similarity (3 / 10)) = ''70.00''"
    by (simp_all add: similarity_half similarity_3_10 toFixed_50 toFixed_70)
  let ?a = "initial\<lparr>referenceDescriptor := Some [3 / 10, 4 / 10],
                     capturedDescriptor := Some [0, 0]\<rparr>"
  let ?b = "initial\<lparr>referenceDescriptor := Some [3 / 10], capturedDescriptor := Some [0]\<rparr>"
  from performFaceMatch_threshold [of ?a "[3 / 10, 4 / 10]" "[0, 0]"]
  obtain d s' where a: "euclideanDistance [3 / 10, 4 / 10] [0, 0] = Inr d"
    "performFaceMatch ?a = Inr s'"
    "matchResult s' =
       ''Match Result: '' @ toFixed 2 (similarity d) @ ''% similar'' @ [CHR 0x0A]
         @ (if d < 0.5 then check_mark @ '' Face Match Found!''
            else cross_mark @ '' No Match Found'')"
    "result_green s' = (d < 0.5)"
    by auto
  from a(1) distance_3_4 have "d = 1 / 2"
    by simp
  with a(3,4) sim(1) have
    "matchResult s' =
       ''Match Result: 50.00% similar'' @ [CHR 0x0A] @ cross_mark @ '' No Match Found''"
    "\<not> result_green s'"
    by simp_all
  with a(2) have boundary: "\<exists>s'. performFaceMatch ?a = Inr s'
        \<and> matchResult s' =
            ''Match Result: 50.00% similar'' @ [CHR 0x0A] @ cross_mark @ '' No Match Found''
        \<and> \<not> result_green s'"
    by blast
  from performFaceMatch_threshold [of ?b "[3 / 10]" "[0]"]
  obtain d' t' where b: "euclideanDistance [3 / 10] [0] = Inr d'"
    "performFaceMatch ?b = Inr t'"
    "matchResult t' =
       ''Match Result: '' @ toFixed 2 (similarity d') @ ''% similar'' @ [CHR 0x0A]
         @ (if d' < 0.5 then check_mark @ '' Face Match Found!''
            else cross_mark @ '' No Match Found'')"
    "result_green t' = (d' < 0.5)"
    by auto
  from b(1) distance_3 have "d' = 3 / 10"
    by simp
  with b(3,4) sim(2) have
    "matchResult t' =
       ''Match Result: 70.00% similar'' @ [CHR 0x0A] @ check_mark @ '' Face Match Found!''"
    "result_green t'"
    by simp_all
  with b(2) have below: "\<exists>s'. performFaceMatch ?b = Inr s'
        \<and> matchResult s' =
            ''Match Result: 70.00% similar'' @ [CHR 0x0A] @ check_mark @ '' Face Match Found!''
        \<and> result_green s'"
    by blast
  from boundary below show ?thesis
    by (rule conjI)
qed




text \<open>
  Claim C7. The spec's three examples: distance 0 gives 100.00% and a match, distance 0.5
  gives 50.00% and no match, distance 1.2 gives a similarity of 0 (printed 0.00%) and no
  match.
\<close>

theorem performFaceMatch_examples:
  assumes "referenceDescriptor s = Some r" and "capturedDescriptor s = Some c"
    and "euclideanDistance r c = Inr d"
  shows "(d = 0 \<longrightarrow> similarity d = 100 \<and>
            performFaceMatch s =
              Inr (s\<lparr>matchResult := ''Match Result: 100.00% similar'' @ [CHR 0x0A]
                        @ check_mark @ '' Face Match Found!''\<rparr>))
       \<and> (d = 0.5 \<longrightarrow> similarity d = 50 \<and>
            performFaceMatch s =
              Inr (s\<lparr>matchResult := ''Match Result: 50.00% similar'' @ [CHR 0x0A]
                        @ cross_mark @ '' No Match Found''\<rparr>))
       \<and> (d = 1.2 \<longrightarrow> similarity d = 0 \<and>
            performFaceMatch s =
              Inr (s\<lparr>matchResult := ''Match Result: 0.00% similar'' @ [CHR 0x0A]
                        @ cross_mark @ '' No Match Found''\<rparr>))"
proof -
  have run: "performFaceMatch s = Inr (s\<lparr>matchResult := match_message d\<rparr>)"
    using assms by (rule performFaceMatch_present)
  have s0: "similarity 0 = 100" and s5: "similarity (1 / 2) = 50"
    and s12: "similarity (6 / 5) = 0"
    by (simp_all add: similarity_0 similarity_half similarity_6_5)
  have m0: "match_message 0 =
      ''Match Result: 100.00% similar'' @ [CHR 0x0A] @ check_mark @ '' Face Match Found!''"
    by (simp add: match_message_def s0 toFixed_100 verdict_def matchThreshold_def)
  have m5: "match_message (1 / 2) =
      ''Match Result: 50.00% similar'' @ [CHR 0x0A] @ cross_mark @ '' No Match Found''"
    by (simp add: match_message_def s5 toFixed_50 verdict_def matchThreshold_def)
  have m12: "match_message (6 / 5) =
      ''Match Result: 0.00% similar'' @ [CHR 0x0A] @ cross_mark @ '' No Match Found''"
    by (simp add: match_message_def s12 toFixed_0 verdict_def matchThreshold_def)
  have c0: "similarity d = 100 \<and>
      performFaceMatch s =
        Inr (s\<lparr>matchResult := ''Match Result: 100.00% similar'' @ [CHR 0x0A]
                  @ check_mark @ '' Face Match Found!''\<rparr>)" if "d = 0"
    using run s0 m0 unfolding that by simp
  have c5: "similarity d = 50 \<and>
      performFaceMatch s =
        Inr (s\<lparr>matchResult := ''Match Result: 50.00% similar'' @ [CHR 0x0A]
                  @ cross_mark @ '' No Match Found''\<rparr>)" if "d = 1 / 2"
    using run s5 m5 unfolding that by simp
  have c12: "similarity d = 0 \<and>
      performFaceMatch s =
        Inr (s\<lparr>matchResult := ''Match Result: 0.00% similar'' @ [CHR 0x0A]
                  @ cross_mark @ '' No Match Found''\<rparr>)" if "d = 6 / 5"
    using run s12 m12 unfolding that by simp
  have e: "(0.5 :: real) = 1 / 2" "(1.2 :: real) = 6 / 5"
    by simp_all
  show ?thesis
    unfolding e using c0 c5 c12 by blast
qed

theorem performFaceMatch_examples_witness:
  "performFaceMatch (initial\<lparr>referenceDescriptor := Some [1 / 4, 3 / 4],
                             capturedDescriptor := Some [1 / 4, 3 / 4]\<rparr>) =
     Inr (initial\<lparr>referenceDescriptor := Some [1 / 4, 3 / 4],
                  capturedDescriptor := Some [1 / 4, 3 / 4],
                  matchResult := ''Match Result: 100.00% similar'' @ [CHR 0x0A]
                        @ check_mark @ '' Face Match Found!''\<rparr>)
   \<and> performFaceMatch (initial\<lparr>referenceDescriptor := Some [3 / 10, 4 / 10],
                             capturedDescriptor := Some [0, 0]\<rparr>) =
     Inr (initial\<lparr>referenceDescriptor := Some [3 / 10, 4 / 10],
                  capturedDescriptor := Some [0, 0],
                  matchResult := ''Match Result: 50.00% similar'' @ [CHR 0x0A]
                        @ cross_mark @ '' No Match Found''\<rparr>)
   \<and> performFaceMatch (initial\<lparr>referenceDescriptor := Some [72 / 100, 96 / 100],
                             capturedDescriptor := Some [0, 0]\<rparr>) =
     Inr (initial\<lparr>referenceDescriptor := Some [72 / 100, 96 / 100],
                  capturedDescriptor := Some [0, 0],
                  matchResult := ''Match Result: 0.00% similar'' @ [CHR 0x0A]
                        @ cross_mark @ '' No Match Found''\<rparr>)"
  using performFaceMatch_examples
          [of "initial\<lparr>referenceDescriptor := Some [1 / 4, 3 / 4],
                        capturedDescriptor := Some [1 / 4, 3 / 4]\<rparr>" _ _ 0, OF _ _ distance_same]
        performFaceMatch_examples
          [of "initial\<lparr>referenceDescriptor := Some [3 / 10, 4 / 10],
                        capturedDescriptor := Some [0, 0]\<rparr>" _ _ "1 / 2", OF _ _ distance_3_4]
        performFaceMatch_examples
          [of "initial\<lparr>referenceDescriptor := Some [72 / 100, 96 / 100],
                        capturedDescriptor := Some [0, 0]\<rparr>" _ _ "6 / 5", OF _ _ distance_72_96]
  by simp

subsection \<open>The guard of the comparison\<close>

text \<open>
  Claim C3, as stated, asks for a diagnostic message that names the missing input. The
  message is one fixed string: with only the reference descriptor missing and with only
  the captured descriptor missing, \<open>performFaceMatch\<close> reports the same text, so the text
  cannot tell which input is missing.
\<close>

theorem compare_message_names_no_input:
  "performFaceMatch (initial\<lparr>capturedDescriptor := Some [0]\<rparr>) =
     Inr (initial\<lparr>capturedDescriptor := Some [0],
                  matchResult := ''Please ensure both images have detected faces''\<rparr>)
   \<and> performFaceMatch (initial\<lparr>referenceDescriptor := Some [0]\<rparr>) =
     Inr (initial\<lparr>referenceDescriptor := Some [0],
                  matchResult := ''Please ensure both images have detected faces''\<rparr>)
   \<and> referenceDescriptor (initial\<lparr>capturedDescriptor := Some [0]\<rparr>) = None
   \<and> capturedDescriptor (initial\<lparr>capturedDescriptor := Some [0]\<rparr>) \<noteq> None
   \<and> referenceDescriptor (initial\<lparr>referenceDescriptor := Some [0]\<rparr>) \<noteq> None
   \<and> capturedDescriptor (initial\<lparr>referenceDescriptor := Some [0]\<rparr>) = None"
  by (simp add: performFaceMatch_def initial_def)

text \<open>
  Claim C3, amended. Whenever either descriptor is absent, \<open>performFaceMatch\<close> computes no
  similarity and sets the result to the fixed message "Please ensure both images have
  detected faces", and the compare button carries \<open>disabled\<close>.
\<close>

theorem compare_blocked_when_descriptor_missing:
  assumes "referenceDescriptor s = None \<or> capturedDescriptor s = None"
  shows "performFaceMatch s =
      Inr (s\<lparr>matchResult := ''Please ensure both images have detected faces''\<rparr>)
    \<and> compare_button_disabled s"
  using assms performFaceMatch_missing [OF assms]
  by (auto simp: compare_button_disabled_def)

theorem compare_blocked_when_descriptor_missing_witness:
  "(referenceDescriptor (initial\<lparr>capturedDescriptor := Some [0]\<rparr>) = None
      \<or> capturedDescriptor (initial\<lparr>capturedDescriptor := Some [0]\<rparr>) = None)
   \<and> performFaceMatch (initial\<lparr>capturedDescriptor := Some [0]\<rparr>) =
      Inr (initial\<lparr>capturedDescriptor := Some [0],
                   matchResult := ''Please ensure both images have detected faces''\<rparr>)
   \<and> compare_button_disabled (initial\<lparr>capturedDescriptor := Some [0]\<rparr>)"
  using compare_blocked_when_descriptor_missing [of "initial\<lparr>capturedDescriptor := Some [0]\<rparr>"]
  by (simp add: initial_def)

subsection \<open>Controls while a handler is in flight\<close>

text \<open>
  Claim C5, as stated, has all four actions gated while one is in flight. An upload sets
  no flag: while \<open>handleImageUpload\<close> waits for the detection, \<open>isProcessing\<close> is false,
  the file input and the capture button are enabled and the reset button is shown and
  enabled, so a second upload, a capture or a reset can start.
\<close>

theorem upload_in_flight_controls_enabled:
  "handleImageUpload (chooser\<lparr>detectSingleFace := Pending\<rparr>) ready =
     Hung (ready\<lparr>referenceImage := Some ''blob:photo''\<rparr>)
   \<and> \<not> isProcessing (ready\<lparr>referenceImage := Some ''blob:photo''\<rparr>)
   \<and> \<not> upload_input_disabled (ready\<lparr>referenceImage := Some ''blob:photo''\<rparr>)
   \<and> \<not> capture_button_disabled (ready\<lparr>referenceImage := Some ''blob:photo''\<rparr>)
   \<and> reset_button_shown (ready\<lparr>referenceImage := Some ''blob:photo''\<rparr>)
   \<and> \<not> reset_button_disabled (ready\<lparr>referenceImage := Some ''blob:photo''\<rparr>)"
  by (simp add: handleImageUpload_def upload_try_def chooser_def ready_def initial_def
      upload_input_disabled_def capture_button_disabled_def reset_button_shown_def
      reset_button_disabled_def truthy_def)

lemma capture_try_hung:
  "capture_try e s = Hung s' \<Longrightarrow> isProcessing s' = isProcessing s"
  by (cases "image_onload e"; cases "detectSingleFace e")
     (auto simp: capture_try_def log_def Let_def split: if_splits option.splits)

text \<open>
  Claim C5, amended. The capture action is the one that is gated: whenever
  \<open>captureImage\<close> is suspended at one of its two \<open>await\<close>s, \<open>isProcessing\<close> is true, and
  with it the capture button and the compare button are disabled.
\<close>

theorem capture_in_flight_disables:
  assumes "captureImage e s = Hung s'"
  shows "isProcessing s' \<and> capture_button_disabled s' \<and> compare_button_disabled s'"
proof -
  from assms have guard: "videoRef_current e" "canvasRef_current e" "modelsLoaded s"
    by (auto simp: captureImage_def split: if_splits)
  with assms have "capture_try e (s\<lparr>isProcessing := True\<rparr>) = Hung s'"
    by (cases "capture_try e (s\<lparr>isProcessing := True\<rparr>)") (simp_all add: captureImage_def)
  from capture_try_hung [OF this] have "isProcessing s'"
    by simp
  then show ?thesis
    by (simp add: capture_button_disabled_def compare_button_disabled_def)
qed

theorem capture_in_flight_disables_witness:
  "captureImage (camera\<lparr>detectSingleFace := Pending\<rparr>) ready =
     Hung (ready\<lparr>isProcessing := True, capturedImage := Some ''data:image/jpeg;base64,AA''\<rparr>)
   \<and> isProcessing (ready\<lparr>isProcessing := True, capturedImage := Some ''data:image/jpeg;base64,AA''\<rparr>)
   \<and> capture_button_disabled
        (ready\<lparr>isProcessing := True, capturedImage := Some ''data:image/jpeg;base64,AA''\<rparr>)
   \<and> compare_button_disabled
        (ready\<lparr>isProcessing := True, capturedImage := Some ''data:image/jpeg;base64,AA''\<rparr>)"
proof -
  have run: "captureImage (camera\<lparr>detectSingleFace := Pending\<rparr>) ready =
     Hung (ready\<lparr>isProcessing := True, capturedImage := Some ''data:image/jpeg;base64,AA''\<rparr>)"
    by (simp add: captureImage_def capture_try_def camera_def ready_def initial_def)
  from capture_in_flight_disables [OF run] run show ?thesis
    by simp
qed

subsection \<open>The end of a capture\<close>

text \<open>
  The \<open>finally\<close> block resets \<open>isProcessing\<close> on every path that leaves the \<open>try\<close>: when
  the guard is passed and both awaited promises settle, the handler returns with
  \<open>isProcessing\<close> false, whether a face was found, none was found, or something threw.
\<close>

lemma captureImage_settled:
  assumes "videoRef_current e" and "canvasRef_current e" and "modelsLoaded s"
    and "image_onload e \<noteq> Pending"
    and "image_onload e = Resolved () \<Longrightarrow> detectSingleFace e \<noteq> Pending"
  shows "\<exists>s'. captureImage e s = Returned s' \<and> \<not> isProcessing s'
    \<and> \<not> capture_button_disabled s'"
  using assms
  by (cases "image_onload e"; cases "detectSingleFace e")
     (auto simp: captureImage_def capture_try_def capture_catch_def log_def Let_def
        capture_button_disabled_def split: option.splits)

text \<open>
  Claim C10 says this of every invocation that passes the guard. The promise of lines
  121-124 is fulfilled by the image's \<open>onload\<close> event only; nothing rejects it. When the
  event does not come (the frame of a video without data is an empty canvas, whose data
  URL \<open>data:,\<close> is not an image), the handler stays suspended at the \<open>await\<close>, the
  \<open>finally\<close> block is never reached, and \<open>isProcessing\<close> stays true: the capture button
  remains disabled.
\<close>

theorem capture_never_resumed_stays_processing:
  "captureImage (camera\<lparr>toDataURL := ''data:,'', image_onload := Pending\<rparr>) ready =
     Hung (ready\<lparr>isProcessing := True\<rparr>)
   \<and> isProcessing (ready\<lparr>isProcessing := True\<rparr>)
   \<and> capture_button_disabled (ready\<lparr>isProcessing := True\<rparr>)"
  by (simp add: captureImage_def capture_try_def camera_def ready_def initial_def
      capture_button_disabled_def)

text \<open>The state in which that capture leaves the component, read off the evaluation.\<close>

theorem capture_never_resumed_stays_processing_witness:
  "state_of (captureImage (camera\<lparr>toDataURL := ''data:,'', image_onload := Pending\<rparr>) ready) =
     ready\<lparr>isProcessing := True\<rparr>
   \<and> isProcessing
        (state_of (captureImage (camera\<lparr>toDataURL := ''data:,'', image_onload := Pending\<rparr>) ready))"
  using capture_never_resumed_stays_processing by simp

subsection \<open>No face detected\<close>

lemma handlers_never_throw:
  "handleImageUpload e s \<noteq> Threw s'" and "captureImage e s \<noteq> Threw s'"
  by (cases "image_onload e"; cases "detectSingleFace e";
      auto simp: handleImageUpload_def upload_try_def captureImage_def capture_try_def
        Let_def split: option.splits)+

text \<open>
  Claim C8. When the detection answers "no face", each handler completes normally with
  exactly one change beyond the image it shows and the console line: the result message
  is the not-found text, which the result box displays. No exception leaves the handler,
  and the detection is not asked again. The capture also resets \<open>isProcessing\<close>.
\<close>

theorem no_face_surfaced_as_message:
  "(files0 e = Some file \<and> modelsLoaded s \<and> image_onload e = Resolved ()
      \<and> detectSingleFace e = Resolved None \<longrightarrow>
      handleImageUpload e s =
        Returned (s\<lparr>referenceImage := Some file,
                    console := console s @ [''No face detected in the reference image''],
                    matchResult := ''No face detected in the uploaded image''\<rparr>)
      \<and> result_shown (state_of (handleImageUpload e s)))
   \<and> (videoRef_current e \<and> canvasRef_current e \<and> modelsLoaded s \<and> getContext e
      \<and> image_onload e = Resolved () \<and> detectSingleFace e = Resolved None \<longrightarrow>
      captureImage e s =
        Returned (s\<lparr>capturedImage := Some (toDataURL e),
                    console := console s @ [''No face detected in captured image''],
                    matchResult := ''No face detected in captured image'',
                    isProcessing := False\<rparr>)
      \<and> result_shown (state_of (captureImage e s)))"
  by (simp add: handleImageUpload_def upload_try_def captureImage_def capture_try_def
      log_def result_shown_def)

theorem no_face_surfaced_as_message_witness:
  "files0 chooser = Some ''blob:photo'' \<and> modelsLoaded ready
   \<and> image_onload chooser = Resolved () \<and> detectSingleFace chooser = Resolved None
   \<and> handleImageUpload chooser ready =
        Returned (ready\<lparr>referenceImage := Some ''blob:photo'',
                    console := [''No face detected in the reference image''],
                    matchResult := ''No face detected in the uploaded image''\<rparr>)
   \<and> videoRef_current camera \<and> canvasRef_current camera \<and> getContext camera
   \<and> image_onload camera = Resolved () \<and> detectSingleFace camera = Resolved None
   \<and> captureImage camera ready =
        Returned (ready\<lparr>capturedImage := Some ''data:image/jpeg;base64,AA'',
                    console := [''No face detected in captured image''],
                    matchResult := ''No face detected in captured image''\<rparr>)"
proof -
  have c: "files0 chooser = Some ''blob:photo''" "image_onload chooser = Resolved ()"
    "detectSingleFace chooser = Resolved None" "toDataURL camera = ''data:image/jpeg;base64,AA''"
    "videoRef_current camera" "canvasRef_current camera" "getContext camera"
    "image_onload camera = Resolved ()" "detectSingleFace camera = Resolved None"
    by (simp_all add: chooser_def camera_def)
  have r: "modelsLoaded ready" "console ready = []" "\<not> isProcessing ready"
    by (simp_all add: ready_def initial_def)
  from no_face_surfaced_as_message [of chooser "''blob:photo''" ready]
       no_face_surfaced_as_message [of camera _ ready]
  show ?thesis
    by (simp add: c r)
qed

text \<open>
  Claim C9. After an upload whose detection finds no face, the displayed reference image
  is the new one while the reference descriptor is still the old one, and a subsequent
  \<open>performFaceMatch\<close> compares that old descriptor with the captured one.
\<close>

theorem failed_upload_keeps_old_descriptor:
  assumes "referenceDescriptor s = Some old" and "modelsLoaded s"
    and "files0 e = Some new" and "image_onload e = Resolved ()"
    and "detectSingleFace e = Resolved None"
  shows "\<exists>s'. handleImageUpload e s = Returned s'
    \<and> referenceImage s' = Some new
    \<and> referenceDescriptor s' = Some old
    \<and> capturedDescriptor s' = capturedDescriptor s
    \<and> (\<forall>c d. capturedDescriptor s' = Some c \<and> euclideanDistance old c = Inr d \<longrightarrow>
          performFaceMatch s' = Inr (s'\<lparr>matchResult := match_message d\<rparr>))"
proof -
  let ?t = "s\<lparr>referenceImage := Some new,
              console := console s @ [''No face detected in the reference image''],
              matchResult := ''No face detected in the uploaded image''\<rparr>"
  have "handleImageUpload e s = Returned ?t"
    using assms by (simp add: handleImageUpload_def upload_try_def log_def)
  moreover have "referenceImage ?t = Some new" "referenceDescriptor ?t = Some old"
    "capturedDescriptor ?t = capturedDescriptor s"
    using assms(1) by simp_all
  moreover have "performFaceMatch ?t = Inr (?t\<lparr>matchResult := match_message d\<rparr>)"
    if "capturedDescriptor ?t = Some c" and "euclideanDistance old c = Inr d" for c d
    using performFaceMatch_present [of ?t old c d] assms(1) that by simp
  ultimately show ?thesis
    by blast
qed

theorem failed_upload_keeps_old_descriptor_witness:
  "referenceDescriptor
      (ready\<lparr>referenceImage := Some ''blob:first'', referenceDescriptor := Some [3 / 10, 4 / 10],
             capturedDescriptor := Some [0, 0]\<rparr>) = Some [3 / 10, 4 / 10]
   \<and> modelsLoaded
      (ready\<lparr>referenceImage := Some ''blob:first'', referenceDescriptor := Some [3 / 10, 4 / 10],
             capturedDescriptor := Some [0, 0]\<rparr>)
   \<and> files0 chooser = Some ''blob:photo'' \<and> image_onload chooser = Resolved ()
   \<and> detectSingleFace chooser = Resolved None
   \<and> (\<exists>s'. handleImageUpload chooser
          (ready\<lparr>referenceImage := Some ''blob:first'',
                 referenceDescriptor := Some [3 / 10, 4 / 10],
                 capturedDescriptor := Some [0, 0]\<rparr>) = Returned s'
        \<and> referenceImage s' = Some ''blob:photo''
        \<and> referenceDescriptor s' = Some [3 / 10, 4 / 10]
        \<and> performFaceMatch s' = Inr (s'\<lparr>matchResult := match_message (1 / 2)\<rparr>))"
proof -
  let ?s = "ready\<lparr>referenceImage := Some ''blob:first'',
                 referenceDescriptor := Some [3 / 10, 4 / 10],
                 capturedDescriptor := Some [0, 0]\<rparr>"
  have h: "referenceDescriptor ?s = Some [3 / 10, 4 / 10]" "modelsLoaded ?s"
    "files0 chooser = Some ''blob:photo''" "image_onload chooser = Resolved ()"
    "detectSingleFace chooser = Resolved None" "capturedDescriptor ?s = Some [0, 0]"
    by (simp_all add: ready_def chooser_def)
  from failed_upload_keeps_old_descriptor [OF h(1-5)]
  obtain s' where s': "handleImageUpload chooser ?s = Returned s'"
    "referenceImage s' = Some ''blob:photo''"
    "referenceDescriptor s' = Some [3 / 10, 4 / 10]"
    "capturedDescriptor s' = capturedDescriptor ?s"
    "\<forall>c d. capturedDescriptor s' = Some c \<and> euclideanDistance [3 / 10, 4 / 10] c = Inr d \<longrightarrow>
          performFaceMatch s' = Inr (s'\<lparr>matchResult := match_message d\<rparr>)"
    by blast
  from s'(4,5) h(6) distance_3_4
  have "performFaceMatch s' = Inr (s'\<lparr>matchResult := match_message (1 / 2)\<rparr>)"
    by simp
  with s'(1-3) h(1-5) show ?thesis
    by blast
qed

subsection \<open>Failure to load the models\<close>

lemma handleImageUpload_unloaded: "\<not> modelsLoaded s \<Longrightarrow> handleImageUpload e s = Returned s"
  by (simp add: handleImageUpload_def split: option.splits)

lemma captureImage_unloaded: "\<not> modelsLoaded s \<Longrightarrow> captureImage e s = Returned s"
  by (simp add: captureImage_def)

lemma dispatch_unloaded:
  assumes "\<not> modelsLoaded s" and "referenceDescriptor s = None" and "capturedDescriptor s = None"
  shows "\<not> modelsLoaded (dispatch ev s) \<and> referenceDescriptor (dispatch ev s) = None
    \<and> capturedDescriptor (dispatch ev s) = None"
proof (cases ev)
  case (Upload e)
  with assms show ?thesis by (simp add: handleImageUpload_unloaded)
next
  case (Capture e)
  with assms show ?thesis by (simp add: captureImage_unloaded)
next
  case Compare
  with assms show ?thesis by (simp add: performFaceMatch_missing)
next
  case Reset
  with assms show ?thesis by (simp add: resetCapture_def)
next
  case VideoPlay
  with assms show ?thesis by (simp add: handleVideoPlay_def)
qed

lemma run_unloaded:
  assumes "\<not> modelsLoaded s" and "referenceDescriptor s = None" and "capturedDescriptor s = None"
  shows "\<not> modelsLoaded (run evs s) \<and> referenceDescriptor (run evs s) = None
    \<and> capturedDescriptor (run evs s) = None"
  using assms
proof (induction evs arbitrary: s)
  case Nil
  then show ?case by (simp add: run_def)
next
  case (Cons ev evs)
  from dispatch_unloaded [OF Cons.prems, of ev] Cons.IH [of "dispatch ev s"]
  show ?case by (simp add: run_def)
qed

lemma loadModels_rejected:
  "Rejected \<in> set nets \<Longrightarrow> loadModels nets s = Returned (log ''Error loading models:'' s)"
  by (simp add: loadModels_def promise_all_def)

text \<open>
  Claim C6. If one of the model loads is rejected, then after any user actions before the
  failure and any user actions after it, \<open>modelsLoaded\<close> is false, the loading indicator
  is shown, both descriptors are absent, and an upload or a capture returns at its guard
  without changing the state.
\<close>

theorem models_failed_stays_disabled:
  assumes "Rejected \<in> set nets"
  shows "\<not> modelsLoaded (run after (state_of (loadModels nets (run before initial))))
    \<and> loading_indicator_shown (run after (state_of (loadModels nets (run before initial))))
    \<and> referenceDescriptor (run after (state_of (loadModels nets (run before initial)))) = None
    \<and> capturedDescriptor (run after (state_of (loadModels nets (run before initial)))) = None
    \<and> handleImageUpload e (run after (state_of (loadModels nets (run before initial)))) =
        Returned (run after (state_of (loadModels nets (run before initial))))
    \<and> captureImage e' (run after (state_of (loadModels nets (run before initial)))) =
        Returned (run after (state_of (loadModels nets (run before initial))))"
proof -
  let ?before = "run before initial"
  let ?failed = "state_of (loadModels nets ?before)"
  let ?final = "run after ?failed"
  have "\<not> modelsLoaded initial \<and> referenceDescriptor initial = None
      \<and> capturedDescriptor initial = None"
    by (simp add: initial_def)
  then have b: "\<not> modelsLoaded ?before \<and> referenceDescriptor ?before = None
      \<and> capturedDescriptor ?before = None"
    using run_unloaded [of initial before] by blast
  have "?failed = log ''Error loading models:'' ?before"
    using loadModels_rejected [OF assms] by simp
  with b have f: "\<not> modelsLoaded ?failed \<and> referenceDescriptor ?failed = None
      \<and> capturedDescriptor ?failed = None"
    by (simp add: log_def)
  then have s: "\<not> modelsLoaded ?final \<and> referenceDescriptor ?final = None
      \<and> capturedDescriptor ?final = None"
    using run_unloaded [of ?failed after] by blast
  then show ?thesis
    using handleImageUpload_unloaded [of ?final e] captureImage_unloaded [of ?final e']
    by (simp add: loading_indicator_shown_def)
qed

theorem models_failed_stays_disabled_witness:
  "Rejected \<in> set [Resolved (), Resolved (), Rejected, Resolved (), Resolved ()]
   \<and> run [Upload chooser, Capture camera, Compare]
        (state_of (loadModels [Resolved (), Resolved (), Rejected, Resolved (), Resolved ()]
           (run [VideoPlay] initial))) =
      initial\<lparr>console := [''Error loading models:''],
               matchResult := ''Please ensure both images have detected faces''\<rparr>
   \<and> \<not> modelsLoaded (run [Upload chooser, Capture camera, Compare]
        (state_of (loadModels [Resolved (), Resolved (), Rejected, Resolved (), Resolved ()]
           (run [VideoPlay] initial))))
   \<and> loading_indicator_shown (run [Upload chooser, Capture camera, Compare]
        (state_of (loadModels [Resolved (), Resolved (), Rejected, Resolved (), Resolved ()]
           (run [VideoPlay] initial))))
   \<and> handleImageUpload chooser (run [Upload chooser, Capture camera, Compare]
        (state_of (loadModels [Resolved (), Resolved (), Rejected, Resolved (), Resolved ()]
           (run [VideoPlay] initial)))) =
      Returned (run [Upload chooser, Capture camera, Compare]
        (state_of (loadModels [Resolved (), Resolved (), Rejected, Resolved (), Resolved ()]
           (run [VideoPlay] initial))))
   \<and> captureImage camera (run [Upload chooser, Capture camera, Compare]
        (state_of (loadModels [Resolved (), Resolved (), Rejected, Resolved (), Resolved ()]
           (run [VideoPlay] initial)))) =
      Returned (run [Upload chooser, Capture camera, Compare]
        (state_of (loadModels [Resolved (), Resolved (), Rejected, Resolved (), Resolved ()]
           (run [VideoPlay] initial))))"
proof -
  have ev: "run [Upload chooser, Capture camera, Compare]
        (state_of (loadModels [Resolved (), Resolved (), Rejected, Resolved (), Resolved ()]
           (run [VideoPlay] initial))) =
      initial\<lparr>console := [''Error loading models:''],
               matchResult := ''Please ensure both images have detected faces''\<rparr>"
    by (simp add: run_def loadModels_def promise_all_def handleVideoPlay_def log_def
        handleImageUpload_def captureImage_def performFaceMatch_def initial_def chooser_def
        camera_def)
  from models_failed_stays_disabled
         [of "[Resolved (), Resolved (), Rejected, Resolved (), Resolved ()]"
             "[Upload chooser, Capture camera, Compare]" "[VideoPlay]" chooser camera]
  show ?thesis
    unfolding ev by simp
qed

subsection \<open>Reset\<close>

text \<open>
  Claim C4. From every state, \<open>resetCapture\<close> leaves the reference image, the captured
  image, both descriptors and the result message cleared; it has no guard.
\<close>

theorem resetCapture_clears:
  "referenceImage (resetCapture s) = None
   \<and> capturedImage (resetCapture s) = None
   \<and> referenceDescriptor (resetCapture s) = None
   \<and> capturedDescriptor (resetCapture s) = None
   \<and> matchResult (resetCapture s) = []"
  by (simp add: resetCapture_def)

end
